theory Spec2Isabelle
  imports Complex_Main "HOL-Library.Word"
begin

section \<open>JavaScript values of the client\<close>

text \<open>
  A JavaScript string is a sequence of UTF-16 code units. String literals of the source
  are ASCII and are written through \<open>ascii\<close>.
\<close>

type_synonym jsstring = "16 word list"

definition ascii :: "string \<Rightarrow> jsstring" where
  "ascii s = map of_char s"

text \<open>
  The values a response body can hold after axios has decoded it. A number is kept as a
  rational: only the test against zero is ever made on it. An object is an association list
  whose first binding of a key is the one read.
\<close>

datatype jsvalue =
    JUndefined
  | JNull
  | JBool bool
  | JNum rat
  | JStr jsstring
  | JArr "jsvalue list"
  | JObj "(jsstring \<times> jsvalue) list"

text \<open>\<open>ToBoolean\<close>: what \<open>||\<close>, \<open>!\<close> and \<open>if\<close> test.\<close>

fun truthy :: "jsvalue \<Rightarrow> bool" where
  "truthy JUndefined = False"
| "truthy JNull = False"
| "truthy (JBool b) = b"
| "truthy (JNum n) = (n \<noteq> 0)"
| "truthy (JStr s) = (s \<noteq> [])"
| "truthy (JArr xs) = True"
| "truthy (JObj kvs) = True"

text \<open>
  \<open>data?.detail\<close>: \<open>undefined\<close> on \<open>null\<close> and \<open>undefined\<close>, the property
  of an object, and \<open>undefined\<close> on every other value (no primitive and no array has a
  property of that name).
\<close>

fun optional_detail :: "jsvalue \<Rightarrow> jsvalue" where
  "optional_detail (JObj kvs) =
     (case map_of kvs (ascii ''detail'') of None \<Rightarrow> JUndefined | Some v \<Rightarrow> v)"
| "optional_detail v = JUndefined"

section \<open>Whitespace and \<open>String.prototype.trim\<close>\<close>

text \<open>ECMAScript \<open>LineTerminator\<close>: LF, CR, LS, PS.\<close>

definition isLineTerminator :: "16 word \<Rightarrow> bool" where
  "isLineTerminator c \<longleftrightarrow> c = 0x000A \<or> c = 0x000D \<or> c = 0x2028 \<or> c = 0x2029"

text \<open>
  ECMAScript \<open>WhiteSpace\<close>: TAB, VT, FF, ZWNBSP and the code points of the Unicode
  category Zs.
\<close>

definition isWhiteSpace :: "16 word \<Rightarrow> bool" where
  "isWhiteSpace c \<longleftrightarrow>
     c = 0x0009 \<or> c = 0x000B \<or> c = 0x000C \<or> c = 0xFEFF \<or>
     c = 0x0020 \<or> c = 0x00A0 \<or> c = 0x1680 \<or> (0x2000 \<le> c \<and> c \<le> 0x200A) \<or>
     c = 0x202F \<or> c = 0x205F \<or> c = 0x3000"

text \<open>What \<open>trim\<close> strips from both ends.\<close>

definition isTrimmed :: "16 word \<Rightarrow> bool" where
  "isTrimmed c \<longleftrightarrow> isWhiteSpace c \<or> isLineTerminator c"

definition trim :: "jsstring \<Rightarrow> jsstring" where
  "trim s = rev (dropWhile isTrimmed (rev (dropWhile isTrimmed s)))"

section \<open>The header pattern \<open>/^[\w-]+:/m\<close>\<close>

text \<open>The class \<open>[\w-]\<close>: ASCII letters, digits, underscore and hyphen.\<close>

definition isWordOrHyphen :: "16 word \<Rightarrow> bool" where
  "isWordOrHyphen c \<longleftrightarrow>
     (0x0041 \<le> c \<and> c \<le> 0x005A) \<or> (0x0061 \<le> c \<and> c \<le> 0x007A) \<or>
     (0x0030 \<le> c \<and> c \<le> 0x0039) \<or> c = 0x005F \<or> c = 0x002D"

text \<open>
  \<open>[\w-]+:\<close> tried at the head of a string. The flag says whether one character of the
  class has been consumed. The quantifier is greedy; giving a character back never helps,
  because the character given back is of the class and so is not the colon.
\<close>

fun match_token :: "bool \<Rightarrow> jsstring \<Rightarrow> bool" where
  "match_token seen [] = False"
| "match_token seen (c # cs) =
     (if isWordOrHyphen c then match_token True cs else seen \<and> c = 0x003A)"

text \<open>
  \<open>RegExp.prototype.test\<close> without the global flag tries every start index from 0. With
  the \<open>m\<close> flag, \<open>^\<close> holds at index 0 and after a line terminator; the flag of
  \<open>regex_scan\<close> says whether it holds at the current index.
\<close>

fun regex_scan :: "bool \<Rightarrow> jsstring \<Rightarrow> bool" where
  "regex_scan bol [] = False"
| "regex_scan bol (c # cs) =
     ((bol \<and> match_token False (c # cs)) \<or> regex_scan (isLineTerminator c) cs)"

definition header_pattern_test :: "jsstring \<Rightarrow> bool" where
  "header_pattern_test s = regex_scan True s"

text \<open>
  The same test in the words of the specification: the text is cut into lines at the line
  terminators, and some line begins with a token followed by a colon.
\<close>

fun split_lines :: "jsstring \<Rightarrow> jsstring list" where
  "split_lines [] = [[]]"
| "split_lines (c # cs) =
     (if isLineTerminator c then [] # split_lines cs
      else (case split_lines cs of l # ls \<Rightarrow> (c # l) # ls | [] \<Rightarrow> [[c]]))"

definition some_line_has_token_colon :: "jsstring \<Rightarrow> bool" where
  "some_line_has_token_colon s = list_ex (match_token False) (split_lines s)"

section \<open>Types of the client (types.ts)\<close>

datatype SpamCategory = SAFE | SUSPICIOUS | LIKELY_SPAM

record RuleResult =
  name :: jsstring
  points :: int
  info :: jsstring

record HeaderStatuses =
  spf :: jsstring
  dkim :: jsstring
  dmarc :: jsstring

record AnalysisResponse =
  score :: int
  category :: SpamCategory
  rules_triggered :: "RuleResult list"
  links :: "jsstring list"
  headers :: HeaderStatuses

datatype Mode = Content | Headers

text \<open>
  The fields \<open>id\<close>, \<open>category\<close> and \<open>score\<close> of a history entry carry a suffix, the
  plain names being taken.
\<close>

record HistoryEntry =
  id_h :: jsstring
  timestamp :: jsstring
  category_h :: SpamCategory
  score_h :: int
  inputType :: Mode

section \<open>The platform and the state of the page\<close>

text \<open>How the promise of \<open>axios.post\<close> settles.\<close>

datatype http_outcome =
    Resolved AnalysisResponse
  | RejectedWithResponse jsvalue
  | RejectedNoResponse

text \<open>
  \<open>Resolved d\<close>: a 2xx answer with body \<open>d\<close>. \<open>RejectedWithResponse data\<close>: an axios
  error that carries a response, whose body is \<open>data\<close>. \<open>RejectedNoResponse\<close>: any other
  rejection (timeout, network failure).

  What the page takes from its surroundings: the configured URL, the backend's answer to
  a posted body, the values of \<open>crypto.randomUUID()\<close> and
  \<open>new Date().toISOString()\<close> at the call, and the two JSON functions on history lists
  (\<open>JSON.parse\<close> gives \<open>None\<close> where it throws).
\<close>

record platform =
  API_URL :: jsstring
  post :: "jsstring \<Rightarrow> jsvalue \<Rightarrow> http_outcome"
  randomUUID :: jsstring
  toISOString :: jsstring
  JSON_stringify :: "HistoryEntry list \<Rightarrow> jsstring"
  JSON_parse :: "jsstring \<Rightarrow> HistoryEntry list option"

text \<open>
  The React state of \<open>App\<close> and of \<open>useHistory\<close>, with \<open>localStorage\<close>, the lines
  written by \<open>console.error\<close> and the requests posted so far (URL and body).
\<close>

record app_state =
  mode :: Mode
  raw :: jsstring
  loading :: bool
  error :: jsvalue
  result :: "AnalysisResponse option"
  history :: "HistoryEntry list"
  localStorage :: "jsstring \<rightharpoonup> jsstring"
  console :: "jsstring list"
  posted :: "(jsstring \<times> jsvalue) list"

section \<open>useHistory\<close>

definition STORAGE_KEY :: jsstring where
  "STORAGE_KEY = ascii ''spam-checker-history''"

text \<open>
  The effect that runs once after mounting. \<open>getItem\<close> gives \<open>null\<close> for a key that
  is not stored; \<open>if (stored)\<close> is also false for the empty string. The parsed value is
  taken at its declared type, a list of history entries.
\<close>

definition useHistory_effect :: "platform \<Rightarrow> app_state \<Rightarrow> app_state" where
  "useHistory_effect p s =
     (case localStorage s STORAGE_KEY of
        None \<Rightarrow> s
      | Some stored \<Rightarrow>
          if stored = [] then s
          else (case JSON_parse p stored of
                  Some h \<Rightarrow> s\<lparr>history := h\<rparr>
                | None \<Rightarrow> s\<lparr>console := console s @ [ascii ''Failed to parse history'']\<rparr>))"

text \<open>
  \<open>[entry, ...history].slice(0, 20)\<close>, stored in the state and in \<open>localStorage\<close>.
  The list \<open>history\<close> that the closure holds is the one of the state: nothing else changes
  it while a request is pending. \<open>setItem\<close> is taken to succeed.
\<close>

definition addEntry :: "platform \<Rightarrow> HistoryEntry \<Rightarrow> app_state \<Rightarrow> app_state" where
  "addEntry p entry s =
     (let updated = take 20 (entry # history s)
      in s\<lparr>history := updated,
           localStorage := (localStorage s)(STORAGE_KEY \<mapsto> JSON_stringify p updated)\<rparr>)"

section \<open>handleAnalyze\<close>

text \<open>The check made in headers mode, which throws; the message is what is caught.\<close>

definition lightweight_validation :: "jsstring \<Rightarrow> jsstring + unit" where
  "lightweight_validation r =
     (if \<not> header_pattern_test r then Inl (ascii ''Invalid header format'') else Inr ())"

text \<open>The body \<open>{ raw }\<close> and the URL of the request.\<close>

definition request_body :: "app_state \<Rightarrow> jsvalue" where
  "request_body s = JObj [(ascii ''raw'', JStr (raw s))]"

definition analyze_url :: "platform \<Rightarrow> jsstring" where
  "analyze_url p = API_URL p @ ascii ''/analyze''"

text \<open>The \<open>try\<close> block with its \<open>catch\<close>, after the request has been posted.\<close>

definition settle :: "platform \<Rightarrow> http_outcome \<Rightarrow> app_state \<Rightarrow> app_state" where
  "settle p outcome s =
     (case outcome of
        Resolved d \<Rightarrow>
          addEntry p
            \<lparr>id_h = randomUUID p, timestamp = toISOString p, category_h = category d,
             score_h = score d, inputType = mode s\<rparr>
            (s\<lparr>result := Some d\<rparr>)
      | RejectedWithResponse data \<Rightarrow>
          s\<lparr>error := (if truthy (optional_detail data) then optional_detail data
                      else JStr (ascii ''Analysis failed''))\<rparr>
      | RejectedNoResponse \<Rightarrow>
          s\<lparr>error := JStr (ascii ''Backend timeout or unreachable'')\<rparr>)"

definition handleAnalyze :: "platform \<Rightarrow> app_state \<Rightarrow> app_state" where
  "handleAnalyze p s0 =
     (let s1 = s0\<lparr>error := JNull, result := None\<rparr>
      in if trim (raw s1) = [] then s1\<lparr>error := JStr (ascii ''Input cannot be empty'')\<rparr>
         else
           (case (if mode s1 = Headers then lightweight_validation (raw s1) else Inr ()) of
              Inl message \<Rightarrow> s1\<lparr>error := JStr message\<rparr>
            | Inr u \<Rightarrow>
                let s2 = s1\<lparr>loading := True\<rparr>;
                    s3 = s2\<lparr>posted := posted s2 @ [(analyze_url p, request_body s2)]\<rparr>;
                    s4 = settle p (post p (analyze_url p) (request_body s2)) s3
                in s4\<lparr>loading := False\<rparr>))"

section \<open>The error banner\<close>





section \<open>Initial state and sample inputs\<close>

text \<open>The samples \<open>spam1\<close> and \<open>legit\<close> of the page.\<close>

definition spam1 :: jsstring where
  "spam1 =
     ascii ''From: winner@mailinator.com'' @ [0x000A] @
     ascii ''Subject: WIN BIG NOW!!!'' @ [0x000A, 0x000A] @
     ascii ''Claim now for free money!!! Visit http://bit.ly/spammy''"

definition legit :: jsstring where
  "legit =
     ascii ''From: support@trusted.com'' @ [0x000A] @
     ascii ''Subject: Meeting Notes'' @ [0x000A, 0x000A] @
     ascii ''Hi team,'' @ [0x000A] @
     ascii ''Here are the meeting notes attached. Thanks!''"

text \<open>Two further texts for the examples: one of blanks only, one without a header line.\<close>

definition blank_text :: jsstring where
  "blank_text = [0x0020, 0x0009, 0x000A, 0x00A0, 0x2003]"

definition body_only :: jsstring where
  "body_only = ascii ''Hi team,'' @ [0x000A] @ ascii ''see http://x.y''"

text \<open>The state after the first render, over a given \<open>localStorage\<close>.\<close>

definition initial_state :: "(jsstring \<rightharpoonup> jsstring) \<Rightarrow> app_state" where
  "initial_state store =
     \<lparr>mode = Content, raw = legit, loading = False, error = JNull, result = None,
      history = [], localStorage = store, console = [], posted = []\<rparr>"

text \<open>
  The page over an empty \<open>localStorage\<close>, after the user has chosen a mode and entered a
  text (\<open>setMode\<close>, \<open>setRaw\<close>).
\<close>

definition entered :: "Mode \<Rightarrow> jsstring \<Rightarrow> app_state" where
  "entered m r = (initial_state Map.empty)\<lparr>mode := m, raw := r\<rparr>"

text \<open>
  A platform for the examples: the default URL, a backend that settles every request in the
  given way, fixed values for the identifier and the time, and stand-ins for the JSON
  functions: exact on the empty list and on the unparsable strings that the examples
  store, arbitrary elsewhere.
\<close>

definition example_platform :: "http_outcome \<Rightarrow> platform" where
  "example_platform outcome =
     \<lparr>API_URL = ascii ''http://localhost:8000'',
      post = (\<lambda>url body. outcome),
      randomUUID = ascii ''123e4567-e89b-42d3-a456-426614174000'',
      toISOString = ascii ''2024-01-01T00:00:00.000Z'',
      JSON_stringify = (\<lambda>h. if h = [] then ascii ''[]'' else ascii ''[{}]''),
      JSON_parse = (\<lambda>t. if t = ascii ''[]'' then Some [] else None)\<rparr>"

text \<open>A response for the examples: the sample output of the README.\<close>

definition documented_rules :: "RuleResult list" where
  "documented_rules =
     [\<lparr>name = ascii ''SPAM_KEYWORDS'', points = 14,
       info = ascii ''Found suspicious terms: free money''\<rparr>,
      \<lparr>name = ascii ''EXCESSIVE_PUNCTUATION'', points = 15,
       info = ascii ''Found 6 exclamation marks''\<rparr>,
      \<lparr>name = ascii ''NO_DKIM'', points = 15, info = ascii ''Missing DKIM signature''\<rparr>]"

definition documented_links :: "jsstring list" where
  "documented_links = [ascii ''http://bit.ly/spammy'']"

definition documented_headers :: HeaderStatuses where
  "documented_headers = \<lparr>spf = ascii ''fail'', dkim = ascii ''missing'', dmarc = ascii ''pass''\<rparr>"

definition documented_output :: AnalysisResponse where
  "documented_output =
     \<lparr>score = 72, category = LIKELY_SPAM, rules_triggered = documented_rules,
      links = documented_links, headers = documented_headers\<rparr>"

section \<open>When \<open>handleAnalyze\<close> posts nothing\<close>

text \<open>The input is turned away before anything is posted.\<close>

definition rejected_input :: "app_state \<Rightarrow> bool" where
  "rejected_input s \<longleftrightarrow>
     list_all isTrimmed (raw s) \<or> (mode s = Headers \<and> \<not> header_pattern_test (raw s))"

section \<open>Facts about trimming and the header pattern\<close>

lemma dropWhile_all_iff: "(\<forall>c \<in> set (dropWhile P s). P c) \<longleftrightarrow> (\<forall>c \<in> set s. P c)"
  by (induction s) auto

lemma trim_empty_iff: "trim s = [] \<longleftrightarrow> list_all isTrimmed s"
  by (simp add: trim_def dropWhile_all_iff list_all_iff)

lemma split_lines_nonempty: "split_lines s \<noteq> []"
  by (induction s) (auto split: list.splits)

lemma terminator_not_token: "isLineTerminator c \<Longrightarrow> \<not> isWordOrHyphen c \<and> c \<noteq> 0x003A"
  by (auto simp: isLineTerminator_def isWordOrHyphen_def)

text \<open>A match at the head of a text is a match of its first line.\<close>

lemma match_token_first_line: "match_token seen s = match_token seen (hd (split_lines s))"
proof (induction s arbitrary: seen)
  case Nil
  show ?case by simp
next
  case (Cons c cs)
  show ?case
  proof (cases "isLineTerminator c")
    case True
    then show ?thesis using terminator_not_token [OF True] by simp
  next
    case False
    obtain l ls where sl: "split_lines cs = l # ls"
      using split_lines_nonempty [of cs] by (cases "split_lines cs") auto
    show ?thesis
      using False sl Cons.IH [of True] by simp
  qed
qed

lemma regex_scan_lines:
  "regex_scan bol s \<longleftrightarrow>
     (bol \<and> match_token False (hd (split_lines s))) \<or>
     list_ex (match_token False) (tl (split_lines s))"
proof (induction s arbitrary: bol)
  case Nil
  show ?case by simp
next
  case (Cons c cs)
  obtain l ls where sl: "split_lines cs = l # ls"
    using split_lines_nonempty [of cs] by (cases "split_lines cs") auto
  show ?case
  proof (cases "isLineTerminator c")
    case True
    have "match_token False (c # cs) = False"
      using terminator_not_token [OF True] by simp
    then show ?thesis
      using True sl Cons.IH [of True] by simp
  next
    case False
    have "match_token False (c # cs) = match_token False (c # l)"
      using match_token_first_line [of False "c # cs"] False sl by simp
    then show ?thesis
      using False sl Cons.IH [of False] by simp
  qed
qed

text \<open>The scan of the source and the line-by-line reading of the specification agree.\<close>

lemma header_pattern_test_lines: "header_pattern_test s = some_line_has_token_colon s"
proof -
  obtain l ls where sl: "split_lines s = l # ls"
    using split_lines_nonempty [of s] by (cases "split_lines s") auto
  show ?thesis
    by (simp add: header_pattern_test_def some_line_has_token_colon_def regex_scan_lines sl)
qed

section \<open>The two ways through \<open>handleAnalyze\<close>\<close>
lemma handleAnalyze_rejected:
  assumes "rejected_input s"
  shows "handleAnalyze p s =
           s\<lparr>error := JStr (ascii (if list_all isTrimmed (raw s) then ''Input cannot be empty''
                                    else ''Invalid header format'')),
             result := None\<rparr>"
  using assms
  by (auto simp: handleAnalyze_def rejected_input_def trim_empty_iff lightweight_validation_def)

lemma handleAnalyze_posted:
  assumes "\<not> rejected_input s"
  shows "handleAnalyze p s =
           (settle p (post p (analyze_url p) (request_body s))
              (s\<lparr>error := JNull, result := None, loading := True,
                 posted := posted s @ [(analyze_url p, request_body s)]\<rparr>))
           \<lparr>loading := False\<rparr>"
  using assms
  by (auto simp: handleAnalyze_def rejected_input_def trim_empty_iff lightweight_validation_def
        request_body_def Let_def)

text \<open>What settling the request leaves alone.\<close>

lemma settle_posted: "posted (settle p outcome s) = posted s"
  by (simp add: settle_def addEntry_def Let_def split: http_outcome.splits)

section \<open>The request\<close>

text \<open>
  C1, as amended. Every request that \<open>handleAnalyze\<close> posts goes to the \<open>/analyze\<close>
  endpoint with a body of exactly one field, \<open>raw\<close>, holding the raw text. The body has
  no \<open>mode\<close> field: the mode is used by the page only, for the check of the headers and
  for the input type of the history entry.
\<close>

theorem request_body_is_raw_only:
  assumes "\<not> list_all isTrimmed (raw s)"
    and "mode s = Headers \<longrightarrow> some_line_has_token_colon (raw s)"
  shows "posted (handleAnalyze p s) =
           posted s @ [(API_URL p @ ascii ''/analyze'', JObj [(ascii ''raw'', JStr (raw s))])] \<and>
         map_of [(ascii ''raw'', JStr (raw s))] (ascii ''mode'') = None"
proof -
  have "\<not> rejected_input s"
    using assms by (simp add: rejected_input_def header_pattern_test_lines)
  then have "posted (handleAnalyze p s) =
      posted s @ [(API_URL p @ ascii ''/analyze'', JObj [(ascii ''raw'', JStr (raw s))])]"
    by (simp add: handleAnalyze_posted settle_posted analyze_url_def request_body_def)
  moreover have "map_of [(ascii ''raw'', JStr (raw s))] (ascii ''mode'') = None"
    by (simp add: ascii_def)
  ultimately show ?thesis by simp
qed

theorem request_body_is_raw_only_witness:
  "posted (handleAnalyze (example_platform RejectedNoResponse) (entered Headers legit)) =
     [(ascii ''http://localhost:8000/analyze'', JObj [(ascii ''raw'', JStr legit)])]"
proof -
  have nonblank: "\<not> list_all isTrimmed (raw (entered Headers legit))"
    by code_simp
  have header: "mode (entered Headers legit) = Headers \<longrightarrow>
      some_line_has_token_colon (raw (entered Headers legit))"
    by code_simp
  have "posted (handleAnalyze (example_platform RejectedNoResponse) (entered Headers legit)) =
        [(ascii ''http://localhost:8000'' @ ascii ''/analyze'', JObj [(ascii ''raw'', JStr legit)])]"
    using request_body_is_raw_only [OF nonblank header, of "example_platform RejectedNoResponse"]
    by (simp add: initial_state_def entered_def example_platform_def)
  then show ?thesis
    by (simp add: ascii_def)
qed

text \<open>
  C1 as stated fails: in headers mode, with the sample \<open>spam1\<close> as text, the body posted is
  \<open>{raw: spam1}\<close>, and it has no field \<open>mode\<close>.
\<close>

theorem request_has_no_mode_counterexample:
  "map snd (posted (handleAnalyze (example_platform RejectedNoResponse)
              (entered Headers spam1))) =
     [JObj [(ascii ''raw'', JStr spam1)]] \<and>
   map_of [(ascii ''raw'', JStr spam1)] (ascii ''mode'') = None"
proof -
  have "header_pattern_test spam1"
    by code_simp
  moreover have "\<not> list_all isTrimmed spam1"
    by code_simp
  ultimately have "\<not> rejected_input (entered Headers spam1)"
    by (simp add: rejected_input_def entered_def initial_state_def)
  then have "posted (handleAnalyze (example_platform RejectedNoResponse)
                 (entered Headers spam1)) =
      [(analyze_url (example_platform RejectedNoResponse), JObj [(ascii ''raw'', JStr spam1)])]"
    by (simp add: handleAnalyze_posted settle_posted request_body_def initial_state_def entered_def)
  moreover have "map_of [(ascii ''raw'', JStr spam1)] (ascii ''mode'') = None"
    by (simp add: ascii_def)
  ultimately show ?thesis by simp
qed

section \<open>Inputs that are turned away\<close>

text \<open>
  C2. When the raw text is empty or holds nothing but the characters that \<open>trim\<close> strips
  (the whitespace and line terminators of ECMAScript), \<open>handleAnalyze\<close> sets the error to
  the message "Input cannot be empty", leaves the result empty, posts no request and adds
  nothing to the history or to \<open>localStorage\<close>.
\<close>

theorem blank_input_rejected:
  assumes "list_all isTrimmed (raw s)"
  shows "error (handleAnalyze p s) = JStr (ascii ''Input cannot be empty'') \<and>
         result (handleAnalyze p s) = None \<and>
         posted (handleAnalyze p s) = posted s \<and>
         history (handleAnalyze p s) = history s \<and>
         localStorage (handleAnalyze p s) = localStorage s"
proof -
  have "rejected_input s"
    using assms by (simp add: rejected_input_def)
  then show ?thesis
    using assms by (simp add: handleAnalyze_rejected)
qed

theorem blank_input_rejected_witness:
  "list_all isTrimmed blank_text \<and>
   error (handleAnalyze (example_platform (Resolved documented_output))
            (entered Content blank_text)) =
     JStr (ascii ''Input cannot be empty'') \<and>
   posted (handleAnalyze (example_platform (Resolved documented_output))
            (entered Content blank_text)) = [] \<and>
   history (handleAnalyze (example_platform (Resolved documented_output))
            (entered Content blank_text)) = []"
proof -
  have blank: "list_all isTrimmed blank_text"
    by code_simp
  show ?thesis
    using blank
      blank_input_rejected
        [of "entered Content blank_text"
          "example_platform (Resolved documented_output)"]
    by (simp add: initial_state_def entered_def)
qed

text \<open>
  C3. In headers mode, when no line of the raw text begins with a token followed by a
  colon, \<open>handleAnalyze\<close> sets an error message ("Input cannot be empty" for a blank text,
  "Invalid header format" otherwise), leaves the result empty, posts no request and adds
  nothing to the history or to \<open>localStorage\<close>.
\<close>

theorem headers_without_header_line_rejected:
  assumes "mode s = Headers"
    and "\<not> some_line_has_token_colon (raw s)"
  shows "error (handleAnalyze p s) =
           JStr (ascii (if list_all isTrimmed (raw s) then ''Input cannot be empty''
                        else ''Invalid header format'')) \<and>
         result (handleAnalyze p s) = None \<and>
         posted (handleAnalyze p s) = posted s \<and>
         history (handleAnalyze p s) = history s \<and>
         localStorage (handleAnalyze p s) = localStorage s"
proof -
  have "rejected_input s"
    using assms by (simp add: rejected_input_def header_pattern_test_lines)
  then show ?thesis
    by (simp add: handleAnalyze_rejected)
qed

theorem headers_without_header_line_rejected_witness:
  "\<not> some_line_has_token_colon body_only \<and>
   error (handleAnalyze (example_platform (Resolved documented_output))
            (entered Headers body_only)) =
     JStr (ascii ''Invalid header format'') \<and>
   posted (handleAnalyze (example_platform (Resolved documented_output))
            (entered Headers body_only)) = [] \<and>
   history (handleAnalyze (example_platform (Resolved documented_output))
            (entered Headers body_only)) = []"
proof -
  have no_line:
    "\<not> some_line_has_token_colon body_only"
    by code_simp
  have nonblank: "\<not> list_all isTrimmed body_only"
    by code_simp
  show ?thesis
    using no_line nonblank
      headers_without_header_line_rejected
        [of "entered Headers body_only"
          "example_platform (Resolved documented_output)"]
    by (simp add: initial_state_def entered_def)
qed

section \<open>The message after a failed request\<close>




section \<open>The history\<close>

text \<open>
  C8. After a successful analysis the history is the old one with a new entry in front, cut
  to 20 entries. The entry is a record of exactly the fields id, timestamp, category, score
  and input type; its category and score are those of the response returned and its input
  type is the mode in use. The page itself writes the list to \<open>localStorage\<close>; the one
  request posted carries the raw text only.
\<close>

theorem history_entry_of_success:
  assumes "\<not> list_all isTrimmed (raw s)"
    and "mode s = Headers \<longrightarrow> some_line_has_token_colon (raw s)"
    and "post p (analyze_url p) (request_body s) = Resolved d"
  shows "history (handleAnalyze p s) =
           take 20 (\<lparr>id_h = randomUUID p, timestamp = toISOString p, category_h = category d,
                     score_h = score d, inputType = mode s\<rparr> # history s) \<and>
         localStorage (handleAnalyze p s) =
           (localStorage s)(STORAGE_KEY \<mapsto> JSON_stringify p (history (handleAnalyze p s))) \<and>
         result (handleAnalyze p s) = Some d \<and>
         posted (handleAnalyze p s) =
           posted s @ [(analyze_url p, JObj [(ascii ''raw'', JStr (raw s))])]"
proof -
  have "\<not> rejected_input s"
    using assms(1,2) by (simp add: rejected_input_def header_pattern_test_lines)
  then show ?thesis
    using assms(3)
    by (simp add: handleAnalyze_posted settle_def addEntry_def Let_def request_body_def)
qed

theorem history_entry_of_success_witness:
  "history (handleAnalyze (example_platform (Resolved documented_output))
              (entered Headers spam1)) =
     [\<lparr>id_h = ascii ''123e4567-e89b-42d3-a456-426614174000'',
       timestamp = ascii ''2024-01-01T00:00:00.000Z'',
       category_h = LIKELY_SPAM, score_h = 72, inputType = Headers\<rparr>]"
proof -
  have nonblank: "\<not> list_all isTrimmed (raw (entered Headers spam1))"
    by code_simp
  have header: "mode (entered Headers spam1) = Headers \<longrightarrow>
      some_line_has_token_colon (raw (entered Headers spam1))"
    by code_simp
  have answer: "post (example_platform (Resolved documented_output))
      (analyze_url (example_platform (Resolved documented_output)))
      (request_body (entered Headers spam1)) = Resolved documented_output"
    by (simp add: example_platform_def)
  show ?thesis
    using history_entry_of_success [OF nonblank header answer]
    by (simp add: example_platform_def documented_output_def entered_def initial_state_def)
qed

text \<open>
  C9. After \<open>addEntry\<close> the history has at most 20 entries: the new entry first, then the
  first 19 of the entries held before, in their order. The same list is what is written to
  \<open>localStorage\<close>.
\<close>

theorem addEntry_bounded_newest_first:
  "length (history (addEntry p e s)) \<le> 20 \<and>
   history (addEntry p e s) = e # take 19 (history s) \<and>
   localStorage (addEntry p e s) STORAGE_KEY = Some (JSON_stringify p (e # take 19 (history s)))"
  by (simp add: addEntry_def Let_def)

text \<open>
  C10, as amended. When the value stored under the key is not parsable, the effect that
  loads the history does not fail and the history stays empty; the failure is logged,
  except for the empty string, which the effect never hands to the parser.
\<close>

theorem unparsable_history_load:
  assumes "store STORAGE_KEY = Some stored"
    and "JSON_parse p stored = None"
  shows "history (useHistory_effect p (initial_state store)) = [] \<and>
         console (useHistory_effect p (initial_state store)) =
           (if stored = [] then [] else [ascii ''Failed to parse history''])"
  using assms by (simp add: useHistory_effect_def initial_state_def)

theorem unparsable_history_load_witness:
  "history (useHistory_effect (example_platform RejectedNoResponse)
              (initial_state [STORAGE_KEY \<mapsto> ascii ''not json''])) = [] \<and>
   console (useHistory_effect (example_platform RejectedNoResponse)
              (initial_state [STORAGE_KEY \<mapsto> ascii ''not json''])) =
     [ascii ''Failed to parse history'']"
proof -
  have stored: "[STORAGE_KEY \<mapsto> ascii ''not json''] STORAGE_KEY = Some (ascii ''not json'')"
    by simp
  have unparsable: "JSON_parse (example_platform RejectedNoResponse) (ascii ''not json'') = None"
    by (simp add: example_platform_def ascii_def)
  have "ascii ''not json'' \<noteq> []"
    by (simp add: ascii_def)
  then show ?thesis
    using unparsable_history_load
      [of "[STORAGE_KEY \<mapsto> ascii ''not json'']" "ascii ''not json''"
        "example_platform RejectedNoResponse", OF stored unparsable]
    by simp
qed

text \<open>
  C10 as stated fails: the empty string is stored under the key, it is not parsable, and
  the effect logs nothing.
\<close>

theorem empty_stored_history_counterexample:
  "[STORAGE_KEY \<mapsto> []] STORAGE_KEY = Some [] \<and>
   JSON_parse (example_platform RejectedNoResponse) [] = None \<and>
   console (useHistory_effect (example_platform RejectedNoResponse)
              (initial_state [STORAGE_KEY \<mapsto> []])) = []"
  by (simp add: useHistory_effect_def initial_state_def example_platform_def ascii_def)

end
